theory Spec2Isabelle
  imports Main "HOL-Library.Sublist"
begin

section \<open>ZettlrVirtualDirectory: the data model\<close>

text \<open>
  The class \<^verbatim>\<open>ZettlrVirtualDirectory\<close> of
  \<^verbatim>\<open>source/main/zettlr-virtual-directory.js\<close> keeps a list of records
  \<^verbatim>\<open>{ name, files }\<close> (\<^verbatim>\<open>_virtualDirectories\<close>), a derived list of
  objects \<^verbatim>\<open>{ name, children, hash, type }\<close> (\<^verbatim>\<open>_realDirectories\<close>) and one
  file on disk (\<^verbatim>\<open>_file\<close>). Every method is a function from the state to an
  outcome and the state it leaves behind; an exception is the outcome \<open>Inl e\<close>, and the
  state beside it is what the object and the disk hold when the exception leaves the method.
\<close>

datatype error = TypeError | ReferenceError | ENOENT

text \<open>An argument of \<^verbatim>\<open>add\<close> before its \<^verbatim>\<open>typeof\<close> check.\<close>

datatype jsvalue =
  JSString string | JSNumber int | JSBoolean bool | JSUndefined | JSNull | JSObject

fun typeof :: "jsvalue \<Rightarrow> string" where
  "typeof (JSString s) = ''string''"
| "typeof (JSNumber n) = ''number''"
| "typeof (JSBoolean b) = ''boolean''"
| "typeof JSUndefined = ''undefined''"
| "typeof JSNull = ''object''"
| "typeof JSObject = ''object''"

text \<open>An element of \<^verbatim>\<open>_virtualDirectories\<close>: \<^verbatim>\<open>{ 'name': name, 'files': [] }\<close>.\<close>

record vdir =
  name :: string
  files :: "string list"

text \<open>
  An element of \<^verbatim>\<open>_realDirectories\<close>:
  \<^verbatim>\<open>{ 'name': dir.name, 'children': [], 'hash': hash(dir.name), 'type': 'virtualdir' }\<close>.
  The type \<open>'f\<close> is the type of the file objects of the parent directory.
\<close>

record 'f realdir =
  real_name :: string
  children :: "'f list"
  real_hash :: int
  real_type :: string

text \<open>
  The parent directory \<^verbatim>\<open>this._directory\<close> is not part of this file; the class
  calls three of its methods, which are taken as given: \<^verbatim>\<open>getPath()\<close>,
  \<^verbatim>\<open>isScope(f)\<close> and \<^verbatim>\<open>findFile({'path': p})\<close>.
\<close>

record 'f directory =
  getPath :: string
  isScope :: "string \<Rightarrow> bool"
  findFile :: "string \<Rightarrow> 'f option"

text \<open>
  The sidecar file holds JSON text. \<^verbatim>\<open>JSON.stringify\<close> and \<^verbatim>\<open>JSON.parse\<close>
  belong to the runtime, so the disk is modelled one level above the text: the content of
  the file is the JSON document that the text denotes. The documents of this model are
  those that \<^verbatim>\<open>_write\<close> produces, an array of objects
  \<^verbatim>\<open>{"name": n, "files": [f, ...]}\<close> with strings \<open>n\<close> and \<open>f\<close>:
  \<open>JObject n fs\<close> is the object with the name \<open>n\<close> and the files \<open>fs\<close>. A file
  with any other content (text that is no JSON, or JSON of another shape) is not a value of
  the type, and what the class does with it is not modelled.
\<close>

datatype json_string = JString string

datatype json_object = JObject json_string "json_string list"

datatype json = JArray "json_object list"

definition stringify_record :: "vdir \<Rightarrow> json_object" where
  "stringify_record dir = JObject (JString (name dir)) (map JString (files dir))"

definition JSON_stringify :: "vdir list \<Rightarrow> json" where
  "JSON_stringify dirs = JArray (map stringify_record dirs)"

fun parse_string :: "json_string \<Rightarrow> string" where
  "parse_string (JString s) = s"

fun parse_record :: "json_object \<Rightarrow> vdir" where
  "parse_record (JObject n fs) = \<lparr>name = parse_string n, files = map parse_string fs\<rparr>"

fun JSON_parse :: "json \<Rightarrow> vdir list" where
  "JSON_parse (JArray objs) = map parse_record objs"

text \<open>
  The calls of \<^verbatim>\<open>fs\<close> that changed the disk, in order:
  \<^verbatim>\<open>fs.unlinkSync(this._file)\<close> and \<^verbatim>\<open>fs.writeFileSync(this._file, ...)\<close>.
\<close>

datatype fs_call = Unlink | WriteFile json

text \<open>
  The state: the two lists of the object, the content of the file \<^verbatim>\<open>this._file\<close>
  (\<open>None\<close> when there is no such file) and the trace of the disk.
\<close>

record 'f state =
  virtualDirectories :: "vdir list"
  realDirectories :: "'f realdir list"
  sidecar :: "json option"
  fs_log :: "fs_call list"

text \<open>The argument of \<^verbatim>\<open>find\<close>: an object that may have the own properties
  \<^verbatim>\<open>hash\<close>, \<^verbatim>\<open>path\<close> and \<^verbatim>\<open>name\<close>; \<open>None\<close> is a property the object
  does not have.\<close>

record query =
  q_hash :: "int option"
  q_path :: "string option"
  q_name :: "string option"

section \<open>Strings\<close>

text \<open>
  \<^verbatim>\<open>String.prototype.toLowerCase\<close> on code units below 256: the letters A to Z and
  the capital letters of Latin-1 (U+00C0 to U+00DE without the multiplication sign
  U+00D7) move up by 32, every other code unit stays.
\<close>

definition char_toLowerCase :: "char \<Rightarrow> char" where
  "char_toLowerCase c =
     (let n = (of_char c :: nat)
      in if (65 \<le> n \<and> n \<le> 90) \<or> (192 \<le> n \<and> n \<le> 222 \<and> n \<noteq> 215)
         then char_of (n + 32) else c)"

definition toLowerCase :: "string \<Rightarrow> string" where
  "toLowerCase s = map char_toLowerCase s"

text \<open>\<^verbatim>\<open>p.indexOf(q)\<close>: the first position at which \<open>q\<close> occurs in \<open>p\<close>, or -1.\<close>

fun indexOf :: "string \<Rightarrow> string \<Rightarrow> int" where
  "indexOf [] q = (if q = [] then 0 else - 1)"
| "indexOf (c # cs) q =
     (if prefix q (c # cs) then 0
      else (let i = indexOf cs q in if i < 0 then - 1 else i + 1))"

text \<open>\<^verbatim>\<open>p.replace(q, r)\<close> with a string \<open>q\<close>: the first occurrence of \<open>q\<close> is
  replaced (\<open>r\<close> is the empty string in this class, so no replacement pattern occurs).\<close>

fun replace :: "string \<Rightarrow> string \<Rightarrow> string \<Rightarrow> string" where
  "replace [] q r = (if q = [] then r else [])"
| "replace (c # cs) q r =
     (if prefix q (c # cs) then r @ drop (length q) (c # cs) else c # replace cs q r)"

section \<open>The private methods\<close>

text \<open>
  No method of the class assigns \<^verbatim>\<open>this._root\<close>: the constructor sets
  \<^verbatim>\<open>_directory\<close>, \<^verbatim>\<open>_file\<close>, \<^verbatim>\<open>_virtualDirectories\<close> and
  \<^verbatim>\<open>_realDirectories\<close> only. Reading it gives \<^verbatim>\<open>undefined\<close>, which
  \<^verbatim>\<open>indexOf\<close> and \<^verbatim>\<open>replace\<close> convert to the string "undefined".
\<close>

definition root :: string where
  "root = ''undefined''"

definition isAbsolute :: "string \<Rightarrow> bool" where
  "isAbsolute p = (if indexOf p root = 0 then True else False)"

definition makeRelative :: "string \<Rightarrow> string" where
  "makeRelative p = (if isAbsolute p then replace p root [] else p)"

text \<open>\<^verbatim>\<open>path.join(this._root, p)\<close> raises a TypeError: its first argument is
  \<^verbatim>\<open>undefined\<close>, not a string.\<close>

definition makeAbsolute :: "string \<Rightarrow> error + string" where
  "makeAbsolute p = (if \<not> isAbsolute p then Inl TypeError else Inr p)"

text \<open>
  \<^verbatim>\<open>_refresh\<close>. The body of the inner loop is
  \<^verbatim>\<open>for(let file of dir.files) { let file = this._directory.findFile({'path': this._makeAbsolute(file)}); if(file) { real.children.push(file); } }\<close>.
  The \<^verbatim>\<open>let file\<close> of the block declares a second variable \<^verbatim>\<open>file\<close>
  that hides the loop variable throughout the block, and the \<^verbatim>\<open>file\<close> in its own
  initialiser is that second variable, read before its declaration has been evaluated.
  Such a read raises a ReferenceError; it is the first step of the body, so neither
  \<^verbatim>\<open>_makeAbsolute\<close> nor \<^verbatim>\<open>findFile\<close> is reached. A record without files
  never enters the loop.
\<close>

definition read_before_initialisation :: "error + 'a" where
  "read_before_initialisation = Inl ReferenceError"

definition refresh_file :: "'f directory \<Rightarrow> string \<Rightarrow> 'f list \<Rightarrow> error + 'f list" where
  "refresh_file D loop_file chn =
     (case (read_before_initialisation :: error + string) of
        Inl e \<Rightarrow> Inl e
      | Inr p \<Rightarrow>
          (case makeAbsolute p of
             Inl e \<Rightarrow> Inl e
           | Inr a \<Rightarrow>
               (case findFile D a of
                  None \<Rightarrow> Inr chn
                | Some file \<Rightarrow> Inr (chn @ [file]))))"

fun refresh_files :: "'f directory \<Rightarrow> string list \<Rightarrow> 'f list \<Rightarrow> error + 'f list" where
  "refresh_files D [] chn = Inr chn"
| "refresh_files D (file # rest) chn =
     (case refresh_file D file chn of
        Inl e \<Rightarrow> Inl e
      | Inr chn' \<Rightarrow> refresh_files D rest chn')"

fun refresh_dirs ::
  "(string \<Rightarrow> int) \<Rightarrow> 'f directory \<Rightarrow> vdir list \<Rightarrow> 'f realdir list
     \<Rightarrow> (error + unit) \<times> 'f realdir list" where
  "refresh_dirs hash D [] reals = (Inr (), reals)"
| "refresh_dirs hash D (dir # dirs) reals =
     (case refresh_files D (files dir) [] of
        Inl e \<Rightarrow> (Inl e, reals)
      | Inr chn \<Rightarrow>
          refresh_dirs hash D dirs
            (reals @ [\<lparr>real_name = name dir, children = chn, real_hash = hash (name dir),
                       real_type = ''virtualdir''\<rparr>]))"

definition refresh ::
  "(string \<Rightarrow> int) \<Rightarrow> 'f directory \<Rightarrow> 'f state \<Rightarrow> (error + unit) \<times> 'f state" where
  "refresh hash D s =
     (case refresh_dirs hash D (virtualDirectories s) [] of
        (r, reals) \<Rightarrow> (r, s\<lparr>realDirectories := reals\<rparr>))"

text \<open>
  \<^verbatim>\<open>_write\<close>. \<^verbatim>\<open>fs.unlinkSync\<close> raises ENOENT when there is no file to
  remove; the exception leaves \<^verbatim>\<open>_write\<close> before \<^verbatim>\<open>_refresh\<close> runs.
\<close>

definition write_vd ::
  "(string \<Rightarrow> int) \<Rightarrow> 'f directory \<Rightarrow> 'f state \<Rightarrow> (error + unit) \<times> 'f state" where
  "write_vd hash D s =
     (if length (virtualDirectories s) = 0 then
        (case sidecar s of
           None \<Rightarrow> (Inl ENOENT, s)
         | Some c \<Rightarrow> refresh hash D (s\<lparr>sidecar := None, fs_log := fs_log s @ [Unlink]\<rparr>))
      else
        refresh hash D
          (s\<lparr>sidecar := Some (JSON_stringify (virtualDirectories s)),
             fs_log := fs_log s @ [WriteFile (JSON_stringify (virtualDirectories s))]\<rparr>))"

text \<open>
  \<^verbatim>\<open>_read\<close>. \<^verbatim>\<open>fs.lstatSync\<close> raises when there is no file, and the
  \<^verbatim>\<open>catch\<close> returns false. Otherwise the content of the file, a document of the
  shape described above, is parsed and becomes the record list.
\<close>

definition read_vd ::
  "(string \<Rightarrow> int) \<Rightarrow> 'f directory \<Rightarrow> 'f state \<Rightarrow> (error + bool) \<times> 'f state" where
  "read_vd hash D s =
     (case sidecar s of
        None \<Rightarrow> (Inr False, s)
      | Some c \<Rightarrow>
          (case refresh hash D (s\<lparr>virtualDirectories := JSON_parse c\<rparr>) of
             (Inl e, s') \<Rightarrow> (Inl e, s')
           | (Inr u, s') \<Rightarrow> (Inr True, s')))"

section \<open>The public methods\<close>

text \<open>The constructor, given the parent directory and the content of the disk.\<close>

definition constructor ::
  "(string \<Rightarrow> int) \<Rightarrow> 'f directory \<Rightarrow> json option \<Rightarrow> (error + unit) \<times> 'f state" where
  "constructor hash D disk =
     (case read_vd hash D
             \<lparr>virtualDirectories = [], realDirectories = [], sidecar = disk, fs_log = []\<rparr> of
        (Inl e, s) \<Rightarrow> (Inl e, s)
      | (Inr b, s) \<Rightarrow> (Inr (), s))"

text \<open>The test of both \<^verbatim>\<open>find\<close> calls on \<^verbatim>\<open>_virtualDirectories\<close>:
  \<^verbatim>\<open>elem.name.toLowerCase() == name.toLowerCase()\<close>.\<close>

definition matches :: "string \<Rightarrow> vdir \<Rightarrow> bool" where
  "matches n elem = (toLowerCase (name elem) = toLowerCase n)"

text \<open>
  \<^verbatim>\<open>dir\<close> is a reference to the first matching element of the list, so a change
  of \<^verbatim>\<open>dir\<close> is a change of that element in place.
\<close>

fun update_first :: "('a \<Rightarrow> bool) \<Rightarrow> ('a \<Rightarrow> 'a) \<Rightarrow> 'a list \<Rightarrow> 'a list" where
  "update_first P g [] = []"
| "update_first P g (x # xs) = (if P x then g x # xs else x # update_first P g xs)"

text \<open>\<^verbatim>\<open>list.splice(list.indexOf(dir), 1)\<close> for the first matching element
  \<^verbatim>\<open>dir\<close>.\<close>

fun splice_first :: "('a \<Rightarrow> bool) \<Rightarrow> 'a list \<Rightarrow> 'a list" where
  "splice_first P [] = []"
| "splice_first P (x # xs) = (if P x then xs else x # splice_first P xs)"

text \<open>The loop of \<^verbatim>\<open>add\<close> over \<^verbatim>\<open>files\<close>.\<close>

fun push_files :: "'f directory \<Rightarrow> string list \<Rightarrow> vdir \<Rightarrow> vdir" where
  "push_files D [] dir = dir"
| "push_files D (f # fs) dir =
     push_files D fs
       (if isScope D f then dir\<lparr>files := files dir @ [makeRelative f]\<rparr> else dir)"

definition add_vd ::
  "(string \<Rightarrow> int) \<Rightarrow> 'f directory \<Rightarrow> 'f state \<Rightarrow> jsvalue \<Rightarrow> string list
     \<Rightarrow> (error + bool) \<times> 'f state" where
  "add_vd hash D s nm fs =
     (if typeof nm \<noteq> ''string'' then (Inr False, s)
      else
        (case nm of
           JSString n \<Rightarrow>
             (let dirs = (case List.find (matches n) (virtualDirectories s) of
                            None \<Rightarrow> virtualDirectories s @ [\<lparr>name = n, files = []\<rparr>]
                          | Some dir \<Rightarrow> virtualDirectories s);
                  dirs' = update_first (matches n) (push_files D fs) dirs
              in (case write_vd hash D (s\<lparr>virtualDirectories := dirs'\<rparr>) of
                    (Inl e, s') \<Rightarrow> (Inl e, s')
                  | (Inr u, s') \<Rightarrow> (Inr True, s')))
         | _ \<Rightarrow> (Inr False, s)))"

text \<open>
  The loop of \<^verbatim>\<open>remove\<close> over \<^verbatim>\<open>hashes\<close> calls \<^verbatim>\<open>dir.find(...)\<close> on
  the record \<^verbatim>\<open>{ name, files }\<close>, which has no method \<^verbatim>\<open>find\<close>: the first
  pass raises a TypeError.
\<close>

fun remove_hashes :: "int list \<Rightarrow> vdir \<Rightarrow> error + vdir" where
  "remove_hashes [] dir = Inr dir"
| "remove_hashes (h # hs) dir = Inl TypeError"

definition remove_vd ::
  "(string \<Rightarrow> int) \<Rightarrow> 'f directory \<Rightarrow> 'f state \<Rightarrow> string \<Rightarrow> int list
     \<Rightarrow> (error + unit) \<times> 'f state" where
  "remove_vd hash D s n hashes =
     (case List.find (matches n) (virtualDirectories s) of
        None \<Rightarrow> (Inr (), s)
      | Some dir \<Rightarrow>
          (if length hashes = 0 then
             write_vd hash D
               (s\<lparr>virtualDirectories := splice_first (matches n) (virtualDirectories s)\<rparr>)
           else
             (case remove_hashes hashes dir of
                Inl e \<Rightarrow> (Inl e, s)
              | Inr dir' \<Rightarrow>
                  write_vd hash D
                    (s\<lparr>virtualDirectories :=
                         update_first (matches n) (\<lambda>d. dir') (virtualDirectories s)\<rparr>))))"

text \<open>\<^verbatim>\<open>find\<close>: the loop over \<^verbatim>\<open>_realDirectories\<close>, and \<^verbatim>\<open>null\<close> as
  \<open>None\<close>.\<close>

fun find_loop :: "int \<Rightarrow> 'f realdir list \<Rightarrow> 'f realdir option" where
  "find_loop h [] = None"
| "find_loop h (dir # dirs) = (if real_hash dir = h then Some dir else find_loop h dirs)"

definition find_vd :: "'f state \<Rightarrow> query \<Rightarrow> 'f realdir option" where
  "find_vd s obj =
     (case q_hash obj of
        Some h \<Rightarrow> find_loop h (realDirectories s)
      | None \<Rightarrow> None)"

section \<open>Callers and predicates on states\<close>

text \<open>
  A caller that issues a sequence of \<^verbatim>\<open>add\<close> and \<^verbatim>\<open>remove\<close> calls on
  one object and goes on after an exception: each call starts in the state the call
  before it left behind.
\<close>

datatype call = Add jsvalue "string list" | Remove string "int list"

fun perform :: "(string \<Rightarrow> int) \<Rightarrow> 'f directory \<Rightarrow> 'f state \<Rightarrow> call \<Rightarrow> 'f state" where
  "perform hash D s (Add nm fs) = snd (add_vd hash D s nm fs)"
| "perform hash D s (Remove n hashes) = snd (remove_vd hash D s n hashes)"

fun run :: "(string \<Rightarrow> int) \<Rightarrow> 'f directory \<Rightarrow> 'f state \<Rightarrow> call list \<Rightarrow> 'f state" where
  "run hash D s [] = s"
| "run hash D s (c # cs) = run hash D (perform hash D s c) cs"

text \<open>The record list that \<^verbatim>\<open>add\<close> hands to \<^verbatim>\<open>_write\<close>, for a string
  \<open>n\<close>.\<close>

definition add_target :: "'f directory \<Rightarrow> vdir list \<Rightarrow> string \<Rightarrow> string list \<Rightarrow> vdir list" where
  "add_target D dirs n fs =
     update_first (matches n) (push_files D fs)
       (case List.find (matches n) dirs of
          None \<Rightarrow> dirs @ [\<lparr>name = n, files = []\<rparr>]
        | Some dir \<Rightarrow> dirs)"

text \<open>
  The disk agrees with the record list: there is no sidecar file when the list is empty,
  and otherwise the content of the file, parsed, is the list.
\<close>

definition in_sync :: "'f state \<Rightarrow> bool" where
  "in_sync s =
     (case sidecar s of
        None \<Rightarrow> virtualDirectories s = []
      | Some c \<Rightarrow> virtualDirectories s \<noteq> [] \<and> JSON_parse c = virtualDirectories s)"

text \<open>No two records have names that are equal up to case.\<close>

definition names_unique :: "vdir list \<Rightarrow> bool" where
  "names_unique dirs = distinct (map (\<lambda>dir. toLowerCase (name dir)) dirs)"

section \<open>Example inputs\<close>

text \<open>
  A parent directory at \<^verbatim>\<open>/home/u\<close> whose file objects are identified by their
  paths, and a hash function, used where a statement is evaluated on concrete input.
\<close>

definition example_directory :: "string directory" where
  "example_directory =
     \<lparr>getPath = ''/home/u'',
      isScope = (\<lambda>f. prefix ''/home/u/'' f),
      findFile = (\<lambda>p. if prefix ''/home/u/'' p then Some p else None)\<rparr>"

definition example_hash :: "string \<Rightarrow> int" where
  "example_hash s = int (length s)"

text \<open>The state of an object constructed where no sidecar file exists.\<close>

definition fresh :: "string state" where
  "fresh = \<lparr>virtualDirectories = [], realDirectories = [], sidecar = None, fs_log = []\<rparr>"

text \<open>The state after \<^verbatim>\<open>add("Notes")\<close> on the fresh object.\<close>

definition notes_empty :: "string state" where
  "notes_empty =
     \<lparr>virtualDirectories = [\<lparr>name = ''Notes'', files = []\<rparr>],
      realDirectories =
        [\<lparr>real_name = ''Notes'', children = [], real_hash = 5, real_type = ''virtualdir''\<rparr>],
      sidecar = Some (JArray [JObject (JString ''Notes'') []]),
      fs_log =
        [WriteFile (JArray [JObject (JString ''Notes'') []])]\<rparr>"

text \<open>The state that \<^verbatim>\<open>add("Notes", ["/home/u/a.md"])\<close> leaves on the fresh
  object.\<close>

definition notes_state :: "string state" where
  "notes_state =
     \<lparr>virtualDirectories = [\<lparr>name = ''Notes'', files = [''/home/u/a.md'']\<rparr>],
      realDirectories = [],
      sidecar =
        Some (JArray [JObject (JString ''Notes'') [JString ''/home/u/a.md'']]),
      fs_log =
        [WriteFile (JArray [JObject (JString ''Notes'') [JString ''/home/u/a.md'']])]\<rparr>"

section \<open>Properties of the private methods\<close>

lemma indexOf_zero_iff: "indexOf p q = 0 \<longleftrightarrow> prefix q p"
  by (cases p) (auto simp: Let_def)

lemma isAbsolute_iff: "isAbsolute p \<longleftrightarrow> prefix root p"
  by (simp add: isAbsolute_def indexOf_zero_iff)

lemma replace_prefix: "prefix q p \<Longrightarrow> replace p q [] = drop (length q) p"
  by (cases p) auto

lemma makeRelative_eq:
  "makeRelative p = (if prefix ''undefined'' p then drop (length ''undefined'') p else p)"
  by (simp add: makeRelative_def isAbsolute_iff replace_prefix root_def)

lemma parse_record_stringify: "parse_record (stringify_record dir) = dir"
  by (simp add: stringify_record_def comp_def)

lemma JSON_parse_stringify: "JSON_parse (JSON_stringify dirs) = dirs"
  by (simp add: JSON_stringify_def comp_def parse_record_stringify)

lemma stringify_record_parse: "stringify_record (parse_record obj) = obj"
proof (cases obj)
  case (JObject n fs)
  have "JString (parse_string n) = n"
    by (cases n) simp
  moreover have "map (JString \<circ> parse_string) fs = fs"
  proof (induction fs)
    case Nil
    show ?case by simp
  next
    case (Cons f fs)
    then show ?case by (cases f) simp
  qed
  ultimately show ?thesis
    using JObject by (simp add: stringify_record_def)
qed

lemma JSON_stringify_parse: "JSON_stringify (JSON_parse c) = c"
  by (cases c) (simp add: JSON_stringify_def comp_def stringify_record_parse)

lemma find_loop_eq: "find_loop h dirs = List.find (\<lambda>d. real_hash d = h) dirs"
  by (induction dirs) simp_all

section \<open>Properties of the public methods\<close>

lemma push_files_eq:
  "push_files D fs dir = dir\<lparr>files := files dir @ map makeRelative (filter (isScope D) fs)\<rparr>"
  by (induction fs arbitrary: dir) simp_all

lemma name_push_files: "name (push_files D fs dir) = name dir"
  by (simp add: push_files_eq)

lemma matches_push_files: "matches n (push_files D fs dir) = matches n dir"
  by (simp add: matches_def name_push_files)

lemma refresh_fields:
  "virtualDirectories (snd (refresh hash D s)) = virtualDirectories s"
  "sidecar (snd (refresh hash D s)) = sidecar s"
  "fs_log (snd (refresh hash D s)) = fs_log s"
  by (simp_all add: refresh_def split: prod.splits)

lemma write_vd_dirs: "virtualDirectories (snd (write_vd hash D s)) = virtualDirectories s"
  by (simp add: write_vd_def refresh_fields split: option.splits)

lemma write_vd_sidecar:
  "virtualDirectories s \<noteq> [] \<Longrightarrow>
     sidecar (snd (write_vd hash D s)) = Some (JSON_stringify (virtualDirectories s))"
  by (simp add: write_vd_def refresh_fields)

lemma write_vd_unlink:
  "virtualDirectories s = [] \<Longrightarrow> fst (write_vd hash D s) \<noteq> Inl ENOENT \<Longrightarrow>
     sidecar (snd (write_vd hash D s)) = None"
  by (simp add: write_vd_def refresh_fields split: option.splits)

lemma refresh_file_raises: "refresh_file D file chn = Inl ReferenceError"
  by (simp add: refresh_file_def read_before_initialisation_def)

lemma refresh_files_eq: "refresh_files D fs chn = (if fs = [] then Inr chn else Inl ReferenceError)"
  by (cases fs) (simp_all add: refresh_file_raises)

lemma refresh_dirs_error: "fst (refresh_dirs hash D dirs reals) \<in> {Inr (), Inl ReferenceError}"
  by (induction dirs arbitrary: reals) (simp_all add: refresh_files_eq)

lemma refresh_dirs_throws:
  "\<exists>dir \<in> set dirs. files dir \<noteq> [] \<Longrightarrow> fst (refresh_dirs hash D dirs reals) = Inl ReferenceError"
  by (induction dirs arbitrary: reals) (auto simp: refresh_files_eq)

lemma refresh_dirs_returns:
  "\<forall>dir \<in> set dirs. files dir = [] \<Longrightarrow>
   refresh_dirs hash D dirs reals =
     (Inr (), reals @ map (\<lambda>dir. \<lparr>real_name = name dir, children = [], real_hash = hash (name dir),
                       real_type = ''virtualdir''\<rparr>) dirs)"
  by (induction dirs arbitrary: reals) (auto simp: refresh_files_eq)

lemma refresh_dirs_children:
  "\<forall>r \<in> set reals. children r = [] \<Longrightarrow>
   \<forall>r \<in> set (snd (refresh_dirs hash D dirs reals)). children r = []"
proof (induction dirs arbitrary: reals)
  case Nil
  then show ?case by simp
next
  case (Cons dir dirs)
  show ?case
  proof (cases "files dir = []")
    case True
    let ?new = "\<lparr>real_name = name dir, children = [], real_hash = hash (name dir),
                real_type = ''virtualdir''\<rparr>"
    have "\<forall>r \<in> set (reals @ [?new]). children r = []"
      using Cons.prems by simp
    from Cons.IH [OF this] show ?thesis
      using True by (simp add: refresh_files_eq)
  next
    case False
    then show ?thesis
      using Cons.prems by (simp add: refresh_files_eq)
  qed
qed

lemma find_append_new:
  "List.find P (xs @ [x]) =
     (case List.find P xs of None \<Rightarrow> (if P x then Some x else None) | Some y \<Rightarrow> Some y)"
  by (induction xs) simp_all

lemma length_update_first: "length (update_first P g xs) = length xs"
  by (induction xs) simp_all

lemma map_update_first: "(\<And>x. f (g x) = f x) \<Longrightarrow> map f (update_first P g xs) = map f xs"
  by (induction xs) simp_all

lemma find_update_first:
  "(\<And>x. P (g x) = P x) \<Longrightarrow> List.find P (update_first P g xs) = map_option g (List.find P xs)"
  by (induction xs) simp_all

lemma set_splice_first: "set (splice_first P xs) \<subseteq> set xs"
  by (induction xs) auto

lemma distinct_map_splice_first:
  "distinct (map f xs) \<Longrightarrow> distinct (map f (splice_first P xs))"
proof (induction xs)
  case Nil
  then show ?case by simp
next
  case (Cons x xs)
  have "f x \<notin> f ` set (splice_first P xs)"
    using Cons.prems set_splice_first [of P xs] by auto
  with Cons show ?case by simp
qed

lemma snd_outcome:
  "snd (case p of (Inl e, s') \<Rightarrow> (Inl e, s') | (Inr u, s') \<Rightarrow> (Inr b, s')) = snd p"
  by (cases p; cases "fst p") auto

lemma fst_outcome:
  "fst (case p of (Inl e, s') \<Rightarrow> (Inl e, s') | (Inr u, s') \<Rightarrow> (Inr b, s'))
     = (case fst p of Inl e \<Rightarrow> Inl e | Inr u \<Rightarrow> Inr b)"
  by (cases p; cases "fst p") auto

lemma add_vd_string:
  "add_vd hash D s (JSString n) fs =
     (case write_vd hash D (s\<lparr>virtualDirectories := add_target D (virtualDirectories s) n fs\<rparr>) of
        (Inl e, s') \<Rightarrow> (Inl e, s')
      | (Inr u, s') \<Rightarrow> (Inr True, s'))"
  by (simp add: add_vd_def add_target_def Let_def)

lemma add_vd_dirs:
  "virtualDirectories (snd (add_vd hash D s (JSString n) fs))
     = add_target D (virtualDirectories s) n fs"
  by (simp add: add_vd_string snd_outcome write_vd_dirs)

lemma add_target_nonempty: "add_target D dirs n fs \<noteq> []"
proof -
  have "length (add_target D dirs n fs) > 0"
    by (cases dirs) (simp_all add: add_target_def length_update_first split: option.splits)
  then show ?thesis by simp
qed

lemma add_vd_sidecar:
  "sidecar (snd (add_vd hash D s (JSString n) fs))
     = Some (JSON_stringify (add_target D (virtualDirectories s) n fs))"
  by (simp add: add_vd_string snd_outcome write_vd_sidecar add_target_nonempty)

lemma matches_refl: "matches n \<lparr>name = n, files = fs\<rparr>"
  by (simp add: matches_def)

lemma find_add_target:
  "List.find (matches n) (add_target D dirs n fs) =
     Some (push_files D fs
            (case List.find (matches n) dirs of
               None \<Rightarrow> \<lparr>name = n, files = []\<rparr> | Some dir \<Rightarrow> dir))"
  by (simp add: add_target_def find_update_first matches_push_files find_append_new matches_refl
           split: option.splits)

lemma remove_vd_hashes_raise:
  "List.find (matches n) (virtualDirectories s) = Some dir \<Longrightarrow> hashes \<noteq> [] \<Longrightarrow>
     remove_vd hash D s n hashes = (Inl TypeError, s)"
  by (cases hashes) (simp_all add: remove_vd_def)

lemma in_sync_iff:
  "in_sync s \<longleftrightarrow>
     (virtualDirectories s = [] \<longrightarrow> sidecar s = None) \<and>
     (virtualDirectories s \<noteq> [] \<longrightarrow>
        (\<exists>c. sidecar s = Some c \<and> JSON_parse c = virtualDirectories s))"
  by (auto simp: in_sync_def split: option.splits)

lemma write_vd_in_sync:
  "fst (write_vd hash D s) \<noteq> Inl ENOENT \<Longrightarrow> in_sync (snd (write_vd hash D s))"
  by (cases "virtualDirectories s = []")
     (simp_all add: in_sync_def write_vd_dirs write_vd_sidecar write_vd_unlink JSON_parse_stringify)

lemma add_vd_in_sync: "in_sync (snd (add_vd hash D s (JSString n) fs))"
  by (simp add: in_sync_def add_vd_dirs add_vd_sidecar add_target_nonempty JSON_parse_stringify)

lemma add_vd_returns_true:
  "add_vd hash D s nm fs = (Inr True, s') \<Longrightarrow> \<exists>n. nm = JSString n"
  by (cases nm) (simp_all add: add_vd_def)

lemma add_vd_returns_false:
  "add_vd hash D s nm fs = (Inr False, s') \<Longrightarrow> s' = s"
  by (cases nm) (auto simp: add_vd_def Let_def split: prod.splits sum.splits)

lemma remove_vd_returns:
  assumes "remove_vd hash D s n hashes = (Inr (), s')"
  shows "(List.find (matches n) (virtualDirectories s) = None \<and> s' = s) \<or>
         (List.find (matches n) (virtualDirectories s) \<noteq> None \<and> hashes = [] \<and>
          write_vd hash D (s\<lparr>virtualDirectories := splice_first (matches n) (virtualDirectories s)\<rparr>)
            = (Inr (), s'))"
proof (cases "List.find (matches n) (virtualDirectories s)")
  case None
  with assms show ?thesis by (simp add: remove_vd_def)
next
  case (Some dir)
  show ?thesis
  proof (cases hashes)
    case Nil
    with Some assms show ?thesis by (simp add: remove_vd_def)
  next
    case (Cons h hs)
    with Some assms show ?thesis by (simp add: remove_vd_def)
  qed
qed

lemma write_vd_cases:
  "write_vd hash D s =
     (if virtualDirectories s = [] then
        (case sidecar s of
           None \<Rightarrow> (Inl ENOENT, s)
         | Some c \<Rightarrow>
             (Inr (), s\<lparr>sidecar := None, fs_log := fs_log s @ [Unlink], realDirectories := []\<rparr>))
      else
        (fst (refresh_dirs hash D (virtualDirectories s) []),
         s\<lparr>sidecar := Some (JSON_stringify (virtualDirectories s)),
           fs_log := fs_log s @ [WriteFile (JSON_stringify (virtualDirectories s))],
           realDirectories := snd (refresh_dirs hash D (virtualDirectories s) [])\<rparr>))"
  by (simp add: write_vd_def refresh_def split: option.splits prod.splits)

lemma constructor_cases:
  "constructor hash D disk =
     (case disk of
        None \<Rightarrow>
          (Inr (), \<lparr>virtualDirectories = [], realDirectories = [], sidecar = None, fs_log = []\<rparr>)
      | Some c \<Rightarrow>
          (fst (refresh_dirs hash D (JSON_parse c) []),
           \<lparr>virtualDirectories = JSON_parse c,
            realDirectories = snd (refresh_dirs hash D (JSON_parse c) []),
            sidecar = Some c, fs_log = []\<rparr>))"
  by (auto simp: constructor_def read_vd_def refresh_def split: option.splits prod.splits sum.splits)

lemma names_unique_add_target:
  assumes "names_unique dirs"
  shows "names_unique (add_target D dirs n fs)"
proof (cases "List.find (matches n) dirs")
  case None
  then have "\<forall>dir \<in> set dirs. toLowerCase (name dir) \<noteq> toLowerCase n"
    by (auto simp: find_None_iff matches_def)
  then have "toLowerCase n \<notin> (\<lambda>dir. toLowerCase (name dir)) ` set dirs"
    by auto
  with assms None show ?thesis
    by (simp add: names_unique_def add_target_def map_update_first name_push_files)
next
  case (Some dir)
  with assms show ?thesis
    by (simp add: names_unique_def add_target_def map_update_first name_push_files)
qed

lemma add_vd_names_unique:
  "names_unique (virtualDirectories s) \<Longrightarrow>
     names_unique (virtualDirectories (snd (add_vd hash D s nm fs)))"
proof (cases nm)
  case (JSString n)
  assume "names_unique (virtualDirectories s)"
  with JSString show ?thesis
    by (simp add: add_vd_dirs names_unique_add_target)
qed (simp_all add: add_vd_def)

lemma splice_first_no_match: "List.find P xs = None \<Longrightarrow> splice_first P xs = xs"
  by (induction xs) (simp_all split: if_splits)

lemma remove_vd_dirs:
  "virtualDirectories (snd (remove_vd hash D s n hashes)) =
     (if hashes = [] then splice_first (matches n) (virtualDirectories s)
      else virtualDirectories s)"
proof (cases "List.find (matches n) (virtualDirectories s)")
  case None
  then have "splice_first (matches n) (virtualDirectories s) = virtualDirectories s"
    by (rule splice_first_no_match)
  with None show ?thesis by (simp add: remove_vd_def)
next
  case (Some dir)
  then show ?thesis
    by (cases hashes) (simp_all add: remove_vd_def write_vd_dirs)
qed

lemma remove_vd_names_unique:
  "names_unique (virtualDirectories s) \<Longrightarrow>
     names_unique (virtualDirectories (snd (remove_vd hash D s n hashes)))"
  by (simp add: remove_vd_dirs names_unique_def distinct_map_splice_first)

lemma add_target_again:
  assumes "toLowerCase n1 = toLowerCase n2"
  shows "add_target D (add_target D dirs n1 fs1) n2 fs2 =
           update_first (matches n1)
             (\<lambda>dir. dir\<lparr>files := files dir @ map makeRelative (filter (isScope D) fs2)\<rparr>)
             (add_target D dirs n1 fs1)"
proof -
  have m: "matches n2 = matches n1"
    by (rule ext) (simp add: matches_def assms)
  have p: "push_files D fs2 =
             (\<lambda>dir. dir\<lparr>files := files dir @ map makeRelative (filter (isScope D) fs2)\<rparr>)"
    by (rule ext) (rule push_files_eq)
  obtain d where d: "List.find (matches n1) (add_target D dirs n1 fs1) = Some d"
    by (simp add: find_add_target)
  have "add_target D (add_target D dirs n1 fs1) n2 fs2 = 
     update_first (matches n2) (push_files D fs2)
       (case List.find (matches n2) (add_target D dirs n1 fs1) of
          None \<Rightarrow> (add_target D dirs n1 fs1) @ [\<lparr>name = n2, files = []\<rparr>]
        | Some dir \<Rightarrow> (add_target D dirs n1 fs1))"
    by (rule add_target_def)
  also have "\<dots> = update_first (matches n1) (push_files D fs2) (add_target D dirs n1 fs1)"
    by (simp only: m d option.case)
  finally show ?thesis
    by (simp only: p)
qed

lemma refresh_children:
  "\<forall>r \<in> set (realDirectories (snd (refresh hash D s))). children r = []"
  using refresh_dirs_children [of "[]" hash D "virtualDirectories s"]
  by (simp add: refresh_def split: prod.splits)

lemma add_target_has_file:
  assumes "isScope D f" and "f \<in> set fs"
  shows "\<exists>dir \<in> set (add_target D dirs n fs). files dir \<noteq> []"
proof -
  let ?dir = "push_files D fs (case List.find (matches n) dirs of
               None \<Rightarrow> \<lparr>name = n, files = []\<rparr> | Some dir \<Rightarrow> dir)"
  have "List.find (matches n) (add_target D dirs n fs) = Some ?dir"
    by (rule find_add_target)
  then have "?dir \<in> set (add_target D dirs n fs)"
    by (auto simp: find_Some_iff)
  moreover have "filter (isScope D) fs \<noteq> []"
    using assms by (auto simp: filter_empty_conv)
  then have "files ?dir \<noteq> []"
    by (simp add: push_files_eq)
  ultimately show ?thesis by blast
qed

lemma add_vd_raises:
  assumes "isScope D f" and "f \<in> set fs"
  shows "fst (add_vd hash D s (JSString n) fs) = Inl ReferenceError"
proof -
  have "fst (refresh_dirs hash D (add_target D (virtualDirectories s) n fs) []) = Inl ReferenceError"
    using assms by (intro refresh_dirs_throws add_target_has_file)
  then show ?thesis
    by (simp add: add_vd_string fst_outcome write_vd_cases add_target_nonempty)
qed

lemma add_vd_children:
  "\<forall>r \<in> set (realDirectories (snd (add_vd hash D s (JSString n) fs))). children r = []"
proof -
  let ?s0 = "s\<lparr>virtualDirectories := add_target D (virtualDirectories s) n fs\<rparr>"
  have "snd (add_vd hash D s (JSString n) fs) = snd (write_vd hash D ?s0)"
    by (simp add: add_vd_string snd_outcome)
  moreover have "realDirectories (snd (write_vd hash D ?s0))
                   = snd (refresh_dirs hash D (add_target D (virtualDirectories s) n fs) [])"
    by (simp add: write_vd_cases add_target_nonempty)
  ultimately show ?thesis
    using refresh_dirs_children [of "[]" hash D "add_target D (virtualDirectories s) n fs"]
    by simp
qed

lemma perform_names_unique:
  "names_unique (virtualDirectories s) \<Longrightarrow> names_unique (virtualDirectories (perform hash D s c))"
  by (cases c) (simp_all add: add_vd_names_unique remove_vd_names_unique)

lemma run_names_unique:
  "names_unique (virtualDirectories s) \<Longrightarrow> names_unique (virtualDirectories (run hash D s cs))"
  by (induction cs arbitrary: s) (simp_all add: perform_names_unique)

lemma write_vd_in_sync_always: "in_sync (snd (write_vd hash D s))"
  by (simp add: write_vd_cases in_sync_def JSON_parse_stringify split: option.splits)

lemma write_vd_then_constructor:
  assumes "write_vd hash D s = (r, s')" and "r \<noteq> Inl ENOENT"
  shows "fst (constructor hash D (sidecar s')) = r \<and>
         realDirectories (snd (constructor hash D (sidecar s'))) = realDirectories s' \<and>
         virtualDirectories (snd (constructor hash D (sidecar s'))) = virtualDirectories s'"
proof (cases "virtualDirectories s = []")
  case True
  with assms show ?thesis
    by (auto simp: write_vd_cases constructor_cases split: option.splits)
next
  case False
  with assms show ?thesis
    by (auto simp: write_vd_cases constructor_cases JSON_parse_stringify)
qed

lemma constructor_raises:
  assumes "\<exists>dir \<in> set dirs. files dir \<noteq> []"
  shows "fst (constructor hash D (Some (JSON_stringify dirs))) = Inl ReferenceError"
  using assms by (simp add: constructor_cases JSON_parse_stringify refresh_dirs_throws)

section \<open>The claims\<close>

text \<open>
  C1. The claim: where a record matches \<open>n\<close> up to case, \<^verbatim>\<open>remove(n, refs)\<close> with
  a non-empty list removes the listed references from the files of that record, leaves the
  record and all others in place, and then persists and rebuilds the derived view. The code
  does not: the loop calls \<^verbatim>\<open>dir.find\<close> on the record object
  \<^verbatim>\<open>{ name, files }\<close>, which is no array, so the first pass raises a TypeError
  (\<open>remove_vd_hashes_raise\<close> for every such call). Evaluated on the object that
  \<^verbatim>\<open>add("Notes", ["/home/u/a.md"])\<close> leaves behind and on the one that
  \<^verbatim>\<open>add("Notes")\<close> returns: in both the call raises, no reference is removed,
  nothing is written and the derived view is not rebuilt.
\<close>

theorem remove_listed_raises:
  "snd (add_vd example_hash example_directory fresh (JSString ''Notes'') [''/home/u/a.md''])
     = notes_state \<and>
   List.find (matches ''notes'') (virtualDirectories notes_state)
     = Some \<lparr>name = ''Notes'', files = [''/home/u/a.md'']\<rparr> \<and>
   remove_vd example_hash example_directory notes_state ''notes''
       [example_hash ''/home/u/a.md'']
     = (Inl TypeError, notes_state) \<and>
   add_vd example_hash example_directory fresh (JSString ''Notes'') [] = (Inr True, notes_empty) \<and>
   remove_vd example_hash example_directory notes_empty ''notes'' [7]
     = (Inl TypeError, notes_empty)"
  by code_simp

text \<open>
  C2. The claim: for a reference \<open>f\<close> in scope, \<^verbatim>\<open>add("X", [f])\<close> followed by
  \<^verbatim>\<open>find({hash: hash("X")})\<close> returns an entry of the derived view whose children
  contain the file object that the parent directory resolves for \<open>f\<close>. The code does
  not: \<^verbatim>\<open>add\<close> stores the reference and writes the sidecar file, and then
  \<^verbatim>\<open>_refresh\<close> raises a ReferenceError at the first file of the record
  (\<open>add_vd_raises\<close> for every such call), before the entry for "X" is pushed. No entry
  of a derived view ever has a child (\<open>refresh_children\<close>). Evaluated on the fresh
  object with a file that the parent directory has in scope and resolves.
\<close>

theorem add_then_find_raises:
  "isScope example_directory ''/home/u/a.md'' \<and>
   findFile example_directory ''/home/u/a.md'' = Some ''/home/u/a.md'' \<and>
   add_vd example_hash example_directory fresh (JSString ''X'') [''/home/u/a.md'']
     = (Inl ReferenceError,
        \<lparr>virtualDirectories = [\<lparr>name = ''X'', files = [''/home/u/a.md'']\<rparr>],
         realDirectories = [],
         sidecar =
           Some (JArray [JObject (JString ''X'') [JString ''/home/u/a.md'']]),
         fs_log =
           [WriteFile (JArray [JObject (JString ''X'') [JString ''/home/u/a.md'']])]\<rparr>) \<and>
   find_vd (snd (add_vd example_hash example_directory fresh (JSString ''X'') [''/home/u/a.md'']))
       \<lparr>q_hash = Some (example_hash ''X''), q_path = None, q_name = None\<rparr>
     = None"
  by code_simp

text \<open>
  C3. The claim: \<^verbatim>\<open>add\<close> appends a reference exactly when it is in scope, and
  stores it without the root path of the owning directory when the reference starts with
  that path. The first half holds (\<open>push_files_eq\<close>: the record receives
  \<open>map makeRelative (filter (isScope D) fs)\<close>). The second does not:
  \<^verbatim>\<open>this._root\<close> is never assigned, so the prefix that is tested and removed is
  the text "undefined" (\<open>makeRelative_eq\<close>). Evaluated for the directory
  \<^verbatim>\<open>/home/u\<close> and the reference \<^verbatim>\<open>/home/u/a.md\<close>: the record and the
  sidecar file hold \<^verbatim>\<open>/home/u/a.md\<close>, not \<^verbatim>\<open>/a.md\<close>.
\<close>

theorem add_stores_root_unstripped:
  "isScope example_directory ''/home/u/a.md'' \<and>
   prefix (getPath example_directory) ''/home/u/a.md'' \<and>
   virtualDirectories
       (snd (add_vd example_hash example_directory fresh (JSString ''X'') [''/home/u/a.md'']))
     = [\<lparr>name = ''X'', files = [''/home/u/a.md'']\<rparr>] \<and>
   sidecar
       (snd (add_vd example_hash example_directory fresh (JSString ''X'') [''/home/u/a.md'']))
     = Some (JArray [JObject (JString ''X'') [JString ''/home/u/a.md'']])"
  by code_simp

text \<open>
  C4. After every \<^verbatim>\<open>add\<close> or \<^verbatim>\<open>remove\<close> that runs to completion, the
  disk agrees with the record list (\<open>in_sync\<close>): no sidecar file when the list is empty,
  and otherwise a file whose content, parsed, is the list. A call that reaches
  \<^verbatim>\<open>_write\<close> and returns establishes this from any state (\<^verbatim>\<open>add\<close>
  returning true; \<^verbatim>\<open>remove\<close> of a name that has a record); a call that returns
  without changing anything (\<^verbatim>\<open>add\<close> returning false, \<^verbatim>\<open>remove\<close> of
  an unknown name) keeps it.
\<close>

theorem mutation_keeps_sidecar_in_sync:
  "(add_vd hash D s nm fs = (Inr True, s') \<longrightarrow> in_sync s') \<and>
   (List.find (matches n) (virtualDirectories s) \<noteq> None \<and>
      remove_vd hash D s n hashes = (Inr (), s'') \<longrightarrow> in_sync s'') \<and>
   (in_sync s \<and> add_vd hash D s nm fs = (Inr b, s') \<longrightarrow> in_sync s') \<and>
   (in_sync s \<and> remove_vd hash D s n hashes = (Inr (), s'') \<longrightarrow> in_sync s'')"
proof (intro conjI impI)
  assume a: "add_vd hash D s nm fs = (Inr True, s')"
  then obtain m where "nm = JSString m"
    using add_vd_returns_true by blast
  with a add_vd_in_sync [of hash D s m fs] show "in_sync s'" by simp
next
  assume "List.find (matches n) (virtualDirectories s) \<noteq> None \<and>
      remove_vd hash D s n hashes = (Inr (), s'')"
  then have w: "write_vd hash D
             (s\<lparr>virtualDirectories := splice_first (matches n) (virtualDirectories s)\<rparr>)
           = (Inr (), s'')"
    using remove_vd_returns [of hash D s n hashes s''] by auto
  from write_vd_in_sync [of hash D
          "s\<lparr>virtualDirectories := splice_first (matches n) (virtualDirectories s)\<rparr>"]
  show "in_sync s''" by (simp add: w)
next
  assume a: "in_sync s \<and> add_vd hash D s nm fs = (Inr b, s')"
  show "in_sync s'"
  proof (cases b)
    case True
    with a have r: "add_vd hash D s nm fs = (Inr True, s')" by simp
    then obtain m where "nm = JSString m"
      using add_vd_returns_true by blast
    with r add_vd_in_sync [of hash D s m fs] show ?thesis by simp
  next
    case False
    with a add_vd_returns_false [of hash D s nm fs s'] show ?thesis by simp
  qed
next
  assume a: "in_sync s \<and> remove_vd hash D s n hashes = (Inr (), s'')"
  from a remove_vd_returns [of hash D s n hashes s'']
  consider "s'' = s"
    | "write_vd hash D
             (s\<lparr>virtualDirectories := splice_first (matches n) (virtualDirectories s)\<rparr>)
           = (Inr (), s'')"
    by auto
  then show "in_sync s''"
  proof cases
    case 1
    with a show ?thesis by simp
  next
    case 2
    from write_vd_in_sync [of hash D
          "s\<lparr>virtualDirectories := splice_first (matches n) (virtualDirectories s)\<rparr>"]
    show ?thesis by (simp add: 2)
  qed
qed

theorem mutation_keeps_sidecar_in_sync_witness:
  "in_sync notes_empty \<and>
   add_vd example_hash example_directory notes_empty (JSString ''notes'') []
     = (Inr True,
        snd (add_vd example_hash example_directory notes_empty (JSString ''notes'') [])) \<and>
   in_sync (snd (add_vd example_hash example_directory notes_empty (JSString ''notes'') [])) \<and>
   List.find (matches ''NOTES'') (virtualDirectories notes_empty) \<noteq> None \<and>
   remove_vd example_hash example_directory notes_empty ''NOTES'' []
     = (Inr (), fresh\<lparr>fs_log := fs_log notes_empty @ [Unlink]\<rparr>) \<and>
   in_sync (fresh\<lparr>fs_log := fs_log notes_empty @ [Unlink]\<rparr>)"
proof -
  have h0: "in_sync notes_empty"
    by code_simp
  have h1: "add_vd example_hash example_directory notes_empty (JSString ''notes'') []
     = (Inr True,
        snd (add_vd example_hash example_directory notes_empty (JSString ''notes'') []))"
    by code_simp
  have h2: "List.find (matches ''NOTES'') (virtualDirectories notes_empty) \<noteq> None"
    by code_simp
  have h3: "remove_vd example_hash example_directory notes_empty ''NOTES'' []
     = (Inr (), fresh\<lparr>fs_log := fs_log notes_empty @ [Unlink]\<rparr>)"
    by code_simp
  from mutation_keeps_sidecar_in_sync
         [where hash = example_hash and D = example_directory and s = notes_empty
            and nm = "JSString ''notes''" and fs = "[]" and b = True
            and s' = "snd (add_vd example_hash example_directory notes_empty
                             (JSString ''notes'') [])"
            and n = "''NOTES''" and hashes = "[]"
            and s'' = "fresh\<lparr>fs_log := fs_log notes_empty @ [Unlink]\<rparr>"]
       h0 h1 h2 h3
  show ?thesis by simp
qed

text \<open>
  C5. The claim: for every record list that one object has persisted, a fresh object
  constructed over the same parent directory and the sidecar file it wrote produces a
  derived view equal to the one the writer produced. The code does not, for any persisted
  list in which a record has a file: the constructor calls \<^verbatim>\<open>_read\<close>, which
  calls \<^verbatim>\<open>_refresh\<close>, which raises the ReferenceError of C2 at the first file
  (\<open>constructor_raises\<close>), so the constructor raises and there is no object and no
  derived view. Evaluated on the sidecar file that
  \<^verbatim>\<open>add("Notes", ["/home/u/a.md"])\<close> writes on a fresh object, for a file the
  parent directory has in scope and resolves. Where no record has a file the
  constructor returns with the writer's view (\<open>write_vd_then_constructor\<close>).
\<close>

theorem constructor_raises_on_written_sidecar:
  "isScope example_directory ''/home/u/a.md'' \<and>
   findFile example_directory ''/home/u/a.md'' = Some ''/home/u/a.md'' \<and>
   snd (add_vd example_hash example_directory fresh (JSString ''Notes'') [''/home/u/a.md''])
     = notes_state \<and>
   sidecar notes_state = Some (JArray [JObject (JString ''Notes'') [JString ''/home/u/a.md'']]) \<and>
   constructor example_hash example_directory (sidecar notes_state)
     = (Inl ReferenceError,
        \<lparr>virtualDirectories = [\<lparr>name = ''Notes'', files = [''/home/u/a.md'']\<rparr>],
         realDirectories = [],
         sidecar = Some (JArray [JObject (JString ''Notes'') [JString ''/home/u/a.md'']]),
         fs_log = []\<rparr>)"
  by code_simp

text \<open>
  C6. Record names are unique up to case. This holds in every state that a sequence of
  \<^verbatim>\<open>add\<close> and \<^verbatim>\<open>remove\<close> calls reaches from an object constructed
  without a sidecar file; the constructor takes it over from a sidecar file that was
  written from a list with unique names, and each \<^verbatim>\<open>add\<close> and
  \<^verbatim>\<open>remove\<close> preserves it (\<^verbatim>\<open>find\<close> changes nothing). Two \<^verbatim>\<open>add\<close> calls with names equal up
  to case, from any state: the second creates no record (the list of names is unchanged;
  one record in all when the name was new), and its in-scope files are appended to the
  record that the first call created or found, all other records unchanged. The statement
  is about the record list that the calls leave, whether they return or raise.
\<close>

theorem names_stay_unique:
  "names_unique (virtualDirectories (run hash D (snd (constructor hash D None)) cs)) \<and>
   (names_unique dirs \<longrightarrow>
      names_unique
        (virtualDirectories (snd (constructor hash D (Some (JSON_stringify dirs)))))) \<and>
   (names_unique (virtualDirectories s) \<longrightarrow>
      names_unique (virtualDirectories (snd (add_vd hash D s nm fs))) \<and>
      names_unique (virtualDirectories (snd (remove_vd hash D s n hashes)))) \<and>
   (toLowerCase na = toLowerCase nb \<longrightarrow>
      (let s1 = snd (add_vd hash D s (JSString na) fsa);
           s2 = snd (add_vd hash D s1 (JSString nb) fsb)
       in length (virtualDirectories s2) = length (virtualDirectories s1) \<and>
          map name (virtualDirectories s2) = map name (virtualDirectories s1) \<and>
          (List.find (matches na) (virtualDirectories s) = None \<longrightarrow>
             length (virtualDirectories s2) = Suc (length (virtualDirectories s))) \<and>
          virtualDirectories s2 =
            update_first (matches na)
              (\<lambda>dir. dir\<lparr>files := files dir @ map makeRelative (filter (isScope D) fsb)\<rparr>)
              (virtualDirectories s1) \<and>
          (\<exists>dir. List.find (matches na) (virtualDirectories s1) = Some dir \<and>
                 List.find (matches nb) (virtualDirectories s2) =
                   Some (dir\<lparr>files := files dir
                                 @ map makeRelative (filter (isScope D) fsb)\<rparr>))))"
proof (intro conjI impI)
  have "names_unique (virtualDirectories (snd (constructor hash D None)))"
    by (simp add: constructor_cases names_unique_def)
  then show "names_unique (virtualDirectories (run hash D (snd (constructor hash D None)) cs))"
    by (rule run_names_unique)
next
  assume "names_unique dirs"
  then show "names_unique
        (virtualDirectories (snd (constructor hash D (Some (JSON_stringify dirs)))))"
    by (simp add: constructor_cases JSON_parse_stringify)
next
  assume "names_unique (virtualDirectories s)"
  then show "names_unique (virtualDirectories (snd (add_vd hash D s nm fs)))"
    by (rule add_vd_names_unique)
next
  assume "names_unique (virtualDirectories s)"
  then show "names_unique (virtualDirectories (snd (remove_vd hash D s n hashes)))"
    by (rule remove_vd_names_unique)
next
  assume eq: "toLowerCase na = toLowerCase nb"
  let ?d1 = "add_target D (virtualDirectories s) na fsa"
  let ?g = "\<lambda>dir. dir\<lparr>files := files dir @ map makeRelative (filter (isScope D) fsb)\<rparr>"
  have d2: "add_target D ?d1 nb fsb = update_first (matches na) ?g ?d1"
    using eq by (rule add_target_again)
  have m: "matches nb = matches na"
    by (rule ext) (simp add: matches_def eq)
  have len: "List.find (matches na) (virtualDirectories s) = None \<longrightarrow>
               length ?d1 = Suc (length (virtualDirectories s))"
    by (simp add: add_target_def length_update_first)
  have f1: "\<exists>dir. List.find (matches na) ?d1 = Some dir"
    by (simp add: find_add_target)
  have f2: "List.find (matches na) (update_first (matches na) ?g ?d1)
              = map_option ?g (List.find (matches na) ?d1)"
    by (rule find_update_first) (simp add: matches_def)
  show "let s1 = snd (add_vd hash D s (JSString na) fsa);
           s2 = snd (add_vd hash D s1 (JSString nb) fsb)
       in length (virtualDirectories s2) = length (virtualDirectories s1) \<and>
          map name (virtualDirectories s2) = map name (virtualDirectories s1) \<and>
          (List.find (matches na) (virtualDirectories s) = None \<longrightarrow>
             length (virtualDirectories s2) = Suc (length (virtualDirectories s))) \<and>
          virtualDirectories s2 =
            update_first (matches na) ?g (virtualDirectories s1) \<and>
          (\<exists>dir. List.find (matches na) (virtualDirectories s1) = Some dir \<and>
                 List.find (matches nb) (virtualDirectories s2) = Some (?g dir))"
    unfolding Let_def add_vd_dirs d2 m f2
    using len f1 by (auto simp: length_update_first map_update_first)
qed

theorem names_stay_unique_witness:
  "names_unique (virtualDirectories fresh) \<and>
   toLowerCase ''Notes'' = toLowerCase ''notes'' \<and>
   List.find (matches ''Notes'') (virtualDirectories fresh) = None \<and>
   names_unique
     (virtualDirectories
        (snd (add_vd example_hash example_directory fresh (JSString ''Notes'')
                [''/home/u/a.md'']))) \<and>
   length
     (virtualDirectories
        (snd (add_vd example_hash example_directory
                (snd (add_vd example_hash example_directory fresh (JSString ''Notes'')
                        [''/home/u/a.md'']))
                (JSString ''notes'') [''/home/u/b.md''])))
     = Suc (length (virtualDirectories fresh)) \<and>
   virtualDirectories
        (snd (add_vd example_hash example_directory
                (snd (add_vd example_hash example_directory fresh (JSString ''Notes'')
                        [''/home/u/a.md'']))
                (JSString ''notes'') [''/home/u/b.md'']))
     = [\<lparr>name = ''Notes'', files = [''/home/u/a.md'', ''/home/u/b.md'']\<rparr>]"
proof -
  have h1: "names_unique (virtualDirectories fresh)"
    by code_simp
  have h2: "toLowerCase ''Notes'' = toLowerCase ''notes''"
    by code_simp
  have h3: "List.find (matches ''Notes'') (virtualDirectories fresh) = None"
    by code_simp
  have h4: "virtualDirectories
        (snd (add_vd example_hash example_directory
                (snd (add_vd example_hash example_directory fresh (JSString ''Notes'')
                        [''/home/u/a.md'']))
                (JSString ''notes'') [''/home/u/b.md'']))
     = [\<lparr>name = ''Notes'', files = [''/home/u/a.md'', ''/home/u/b.md'']\<rparr>]"
    by code_simp
  note inst = names_stay_unique
         [where hash = example_hash and D = example_directory and s = fresh
            and nm = "JSString ''Notes''" and fs = "[''/home/u/a.md'']"
            and na = "''Notes''" and nb = "''notes''"
            and fsa = "[''/home/u/a.md'']" and fsb = "[''/home/u/b.md'']"
            and n = "''Notes''" and hashes = "[]" and cs = "[]", unfolded Let_def]
  have a: "names_unique
     (virtualDirectories
        (snd (add_vd example_hash example_directory fresh (JSString ''Notes'')
                [''/home/u/a.md''])))"
    using inst h1 by blast
  have b: "length
     (virtualDirectories
        (snd (add_vd example_hash example_directory
                (snd (add_vd example_hash example_directory fresh (JSString ''Notes'')
                        [''/home/u/a.md'']))
                (JSString ''notes'') [''/home/u/b.md''])))
     = Suc (length (virtualDirectories fresh))"
    using inst h2 h3 by blast
  from h1 h2 h3 h4 a b show ?thesis by blast
qed

text \<open>
  C7. For every argument \<open>nm\<close> that is not a string, such as the number 42,
  \<^verbatim>\<open>add\<close> returns false without raising, and the state after the call is the state
  before it: the record list, the derived view, the sidecar file and the trace of calls
  that changed the disk are all unchanged.
\<close>

theorem add_non_string:
  "typeof nm \<noteq> ''string'' \<Longrightarrow> add_vd hash D s nm fs = (Inr False, s)"
  by (simp add: add_vd_def)

theorem add_non_string_witness:
  "typeof (JSNumber 42) \<noteq> ''string'' \<and>
   add_vd example_hash example_directory fresh (JSNumber 42) [''/home/u/a.md'']
     = (Inr False, fresh)"
  using add_non_string [of "JSNumber 42" example_hash example_directory fresh "[''/home/u/a.md'']"]
  by simp

text \<open>
  C8. Constructing the object where the sidecar file is absent is not an error: the
  constructor returns, the record list and the derived view are empty, and the disk is
  untouched.
\<close>

theorem constructor_no_file:
  "constructor hash D None
     = (Inr (), \<lparr>virtualDirectories = [], realDirectories = [], sidecar = None, fs_log = []\<rparr>)"
  by (simp add: constructor_def read_vd_def)

text \<open>
  C9. \<^verbatim>\<open>add\<close> never removes duplicates. Where the record matching \<open>n\<close> already
  holds the stored form of an in-scope reference \<open>f\<close>, \<^verbatim>\<open>add(n, [f])\<close> appends
  that stored form once more: the record's files are the old ones followed by it, it
  occurs at least twice, and the sidecar file is written from the record list that holds
  the record with both occurrences.
\<close>

theorem add_does_not_deduplicate:
  assumes "List.find (matches n) (virtualDirectories s) = Some dir"
    and "isScope D f"
    and "makeRelative f \<in> set (files dir)"
  shows "List.find (matches n) (virtualDirectories (snd (add_vd hash D s (JSString n) [f])))
           = Some (dir\<lparr>files := files dir @ [makeRelative f]\<rparr>) \<and>
         count_list (files dir @ [makeRelative f]) (makeRelative f)
           = Suc (count_list (files dir) (makeRelative f)) \<and>
         2 \<le> count_list (files dir @ [makeRelative f]) (makeRelative f) \<and>
         sidecar (snd (add_vd hash D s (JSString n) [f]))
           = Some (JSON_stringify (virtualDirectories (snd (add_vd hash D s (JSString n) [f])))) \<and>
         stringify_record (dir\<lparr>files := files dir @ [makeRelative f]\<rparr>)
           \<in> set (map stringify_record (virtualDirectories (snd (add_vd hash D s (JSString n) [f]))))"
proof -
  let ?s' = "snd (add_vd hash D s (JSString n) [f])"
  let ?dir' = "dir\<lparr>files := files dir @ [makeRelative f]\<rparr>"
  have found: "List.find (matches n) (virtualDirectories ?s') = Some ?dir'"
    using assms(1,2) by (simp add: add_vd_dirs find_add_target)
  have "count_list (files dir) (makeRelative f) \<noteq> 0"
    using assms(3) by (simp add: count_list_0_iff)
  then have two: "2 \<le> count_list (files dir @ [makeRelative f]) (makeRelative f)"
    by simp
  have side: "sidecar ?s' = Some (JSON_stringify (virtualDirectories ?s'))"
    by (simp add: add_vd_sidecar add_vd_dirs)
  have "?dir' \<in> set (virtualDirectories ?s')"
    using found by (auto simp: find_Some_iff)
  then have mem: "stringify_record ?dir' \<in> set (map stringify_record (virtualDirectories ?s'))"
    by simp
  from found two side mem show ?thesis by simp
qed

theorem add_does_not_deduplicate_witness:
  "List.find (matches ''notes'') (virtualDirectories notes_state)
     = Some \<lparr>name = ''Notes'', files = [''/home/u/a.md'']\<rparr> \<and>
   isScope example_directory ''/home/u/a.md'' \<and>
   makeRelative ''/home/u/a.md'' \<in> set (files \<lparr>name = ''Notes'', files = [''/home/u/a.md'']\<rparr>) \<and>
   List.find (matches ''notes'')
       (virtualDirectories
          (snd (add_vd example_hash example_directory notes_state (JSString ''notes'')
                  [''/home/u/a.md''])))
     = Some \<lparr>name = ''Notes'', files = [''/home/u/a.md'', ''/home/u/a.md'']\<rparr>"
proof -
  have h1: "List.find (matches ''notes'') (virtualDirectories notes_state)
              = Some \<lparr>name = ''Notes'', files = [''/home/u/a.md'']\<rparr>"
    by code_simp
  have h2: "isScope example_directory ''/home/u/a.md''"
    by code_simp
  have h3: "makeRelative ''/home/u/a.md'' = ''/home/u/a.md''"
    by code_simp
  have h4: "makeRelative ''/home/u/a.md''
              \<in> set (files \<lparr>name = ''Notes'', files = [''/home/u/a.md'']\<rparr>)"
    by (simp add: h3)
  from add_does_not_deduplicate [OF h1 h2 h4, of example_hash] h1 h2 h4
  show ?thesis by (simp add: h3)
qed

text \<open>
  C10. \<^verbatim>\<open>find\<close> matches by the hash only. An argument without the own property
  \<^verbatim>\<open>hash\<close> gives null whatever the derived view holds and whatever path or name
  the argument carries. With a hash \<open>h\<close>, the result is the first entry of the derived
  view whose hash is \<open>h\<close>: the entry at the least position with that hash, and null when
  no entry has it.
\<close>

theorem find_by_hash_only:
  "(q_hash obj = None \<longrightarrow> find_vd s obj = None) \<and>
   (q_hash obj = Some h \<longrightarrow>
      find_vd s obj = List.find (\<lambda>d. real_hash d = h) (realDirectories s) \<and>
      (find_vd s obj = Some dir \<longleftrightarrow>
         (\<exists>i < length (realDirectories s).
            realDirectories s ! i = dir \<and> real_hash dir = h \<and>
            (\<forall>j < i. real_hash (realDirectories s ! j) \<noteq> h))) \<and>
      (find_vd s obj = None \<longleftrightarrow> (\<forall>d \<in> set (realDirectories s). real_hash d \<noteq> h)))"
proof (intro conjI impI)
  assume "q_hash obj = None"
  then show "find_vd s obj = None"
    by (simp add: find_vd_def)
next
  assume h: "q_hash obj = Some h"
  then show eq: "find_vd s obj = List.find (\<lambda>d. real_hash d = h) (realDirectories s)"
    by (simp add: find_vd_def find_loop_eq)
  show "find_vd s obj = Some dir \<longleftrightarrow>
         (\<exists>i < length (realDirectories s).
            realDirectories s ! i = dir \<and> real_hash dir = h \<and>
            (\<forall>j < i. real_hash (realDirectories s ! j) \<noteq> h))"
    unfolding eq find_Some_iff by blast
  show "find_vd s obj = None \<longleftrightarrow> (\<forall>d \<in> set (realDirectories s). real_hash d \<noteq> h)"
    unfolding eq find_None_iff by blast
qed

theorem find_by_hash_only_witness:
  "q_hash \<lparr>q_hash = None, q_path = Some ''/home/u'', q_name = Some ''Notes''\<rparr> = None \<and>
   find_vd notes_empty \<lparr>q_hash = None, q_path = Some ''/home/u'', q_name = Some ''Notes''\<rparr>
     = None \<and>
   q_hash \<lparr>q_hash = Some 5, q_path = None, q_name = None\<rparr> = Some 5 \<and>
   find_vd notes_empty \<lparr>q_hash = Some 5, q_path = None, q_name = None\<rparr>
     = List.find (\<lambda>d. real_hash d = 5) (realDirectories notes_empty) \<and>
   find_vd notes_empty \<lparr>q_hash = Some 5, q_path = None, q_name = None\<rparr>
     = Some \<lparr>real_name = ''Notes'', children = [], real_hash = 5, real_type = ''virtualdir''\<rparr>"
proof -
  have h: "List.find (\<lambda>d. real_hash d = 5) (realDirectories notes_empty)
     = Some \<lparr>real_name = ''Notes'', children = [], real_hash = 5, real_type = ''virtualdir''\<rparr>"
    by (simp add: notes_empty_def)
  from find_by_hash_only
         [where obj = "\<lparr>q_hash = None, q_path = Some ''/home/u'', q_name = Some ''Notes''\<rparr>"
            and s = notes_empty]
       find_by_hash_only
         [where obj = "\<lparr>q_hash = Some 5, q_path = None, q_name = None\<rparr>"
            and s = notes_empty and h = 5]
       h
  show ?thesis by simp
qed

end
